theory Spec2Isabelle
  imports Main "HOL-Library.Word"
begin

section \<open>Data model of the Netlify provider\<close>

text \<open>
  The provider lives in \<^verbatim>\<open>providers/netlify/netlifyProvider.go\<close>. The file exists in two
  revisions, which differ in the transport set-up and in the text of three messages only; the
  functions modelled here (\<^verbatim>\<open>getRecords\<close>, \<^verbatim>\<open>GetZoneRecords\<close>, \<^verbatim>\<open>GetDomainCorrections\<close>,
  \<^verbatim>\<open>recordToNative\<close>, \<^verbatim>\<open>toReq\<close>) have the same control flow in both. The messages are
  those of \<^verbatim>\<open>netlifyProvider.go\<close>.

  Go's fixed-width integers are words: \<^verbatim>\<open>int64\<close> is \<open>64 word\<close>, \<^verbatim>\<open>uint32\<close> is
  \<open>32 word\<close>, \<^verbatim>\<open>uint16\<close> is \<open>16 word\<close>, \<^verbatim>\<open>uint8\<close> is \<open>8 word\<close>. A conversion between
  them keeps the low bits, which is \<open>ucast\<close>.
\<close>

type_synonym int64 = "64 word"
type_synonym uint32 = "32 word"
type_synonym uint16 = "16 word"
type_synonym uint8 = "8 word"

text \<open>\<^verbatim>\<open>netlifyModels.DNSRecord\<close>, the provider's native record: the fields the code reads.\<close>

record DNSRecord =
  r_ID :: string
  r_Hostname :: string
  r_Type :: string
  r_Value :: string
  r_TTL :: int64
  r_Priority :: int64
  r_Flag :: int64
  r_Tag :: string
  r_Managed :: bool

text \<open>\<^verbatim>\<open>netlifyModels.DNSZone\<close>: the fields the code reads.\<close>

record DNSZone =
  zone_ID :: string
  zone_Name :: string

text \<open>
  \<^verbatim>\<open>netlifyModels.DNSRecordCreate\<close>, the creation request. \<^verbatim>\<open>toReq\<close> fills eight of its
  fields by name; the struct's \<^verbatim>\<open>TTL\<close> field is not among them and keeps Go's zero value.
\<close>

record DNSRecordCreate =
  req_Type :: string
  req_Hostname :: string
  req_Value :: string
  req_TTL :: int64
  req_Priority :: int64
  req_Weight :: int64
  req_Port :: int64
  req_Flag :: int64
  req_Tag :: string

text \<open>
  \<^verbatim>\<open>models.RecordConfig\<close>, the canonical record: the fields this provider reads or writes.
  \<^verbatim>\<open>Original\<close> is an \<^verbatim>\<open>interface{}\<close>; \<open>None\<close> stands for \<^verbatim>\<open>nil\<close> and for every dynamic type
  other than \<^verbatim>\<open>*netlifyModels.DNSRecord\<close>, on which the type assertion of
  \<^verbatim>\<open>GetDomainCorrections\<close> panics.
\<close>

record RecordConfig =
  rc_Type :: string
  rc_Name :: string
  rc_NameFQDN :: string
  rc_target :: string
  rc_TTL :: uint32
  rc_MxPreference :: uint16
  rc_SrvPriority :: uint16
  rc_SrvWeight :: uint16
  rc_SrvPort :: uint16
  rc_CaaTag :: string
  rc_CaaFlag :: uint8
  rc_TxtStrings :: "string list"
  rc_Original :: "DNSRecord option"

record DomainConfig =
  dc_Name :: string
  dc_Records :: "RecordConfig list"

text \<open>
  \<^verbatim>\<open>diff.Correlation\<close>: one entry of a diff result. Both fields are pointers, \<open>None\<close> is
  \<^verbatim>\<open>nil\<close>.
\<close>

record Correlation =
  Existing :: "RecordConfig option"
  Desired :: "RecordConfig option"

text \<open>
  Errors are values. \<open>Errorf fmt\<close> is the error built by \<^verbatim>\<open>fmt.Errorf(fmt)\<close> with no further
  argument; \<open>External s\<close> is an error handed back by a collaborator (transport, diff);
  \<open>Panic\<close> is a run-time panic (nil dereference, failed type assertion, a panic raised inside
  a helper).
\<close>

datatype error = Errorf string | External string | Panic

text \<open>
  The collaborators whose code is outside this provider are parameters:
  \<^item> \<open>SetLabelFromFQDN fqdn origin\<close> gives the pair stored into \<^verbatim>\<open>Name\<close> and \<^verbatim>\<open>NameFQDN\<close> by
    \<^verbatim>\<open>RecordConfig.SetLabelFromFQDN\<close>, or \<open>None\<close> where that method panics;
  \<^item> \<open>SetTargetTXTString\<close> is \<^verbatim>\<open>RecordConfig.SetTargetTXTString\<close> (its result is ignored by
    the caller, so only its effect on the record matters);
  \<^item> \<open>AddOrigin\<close> is \<^verbatim>\<open>dnsutil.AddOrigin\<close>;
  \<^item> \<open>Punycode\<close>, \<open>PostProcessRecords\<close>, \<open>SplitSingleLongTxt\<close> are the normalisation passes
    run before the diff; they work in place, so each is a function to the updated value;
  \<^item> \<open>IncrementalDiff dc existing\<close> is \<^verbatim>\<open>diff.New(dc).IncrementalDiff(existing)\<close> and returns
    an error or the four lists unchanged, create, delete, modify;
  \<^item> \<open>Correlation_String\<close> is \<^verbatim>\<open>Correlation.String()\<close>.
\<close>

record ext =
  SetLabelFromFQDN :: "string \<Rightarrow> string \<Rightarrow> (string \<times> string) option"
  SetTargetTXTString :: "string \<Rightarrow> RecordConfig \<Rightarrow> RecordConfig"
  AddOrigin :: "string \<Rightarrow> string \<Rightarrow> string"
  Punycode :: "DomainConfig \<Rightarrow> DomainConfig"
  PostProcessRecords :: "RecordConfig list \<Rightarrow> RecordConfig list"
  SplitSingleLongTxt :: "RecordConfig list \<Rightarrow> RecordConfig list"
  IncrementalDiff :: "DomainConfig \<Rightarrow> RecordConfig list \<Rightarrow>
     error + (Correlation list \<times> Correlation list \<times> Correlation list \<times> Correlation list)"
  Correlation_String :: "Correlation \<Rightarrow> string"

text \<open>
  The provider's read API: the zone list, and the record list of a zone identifier.
\<close>

record api =
  GetDNSZones :: "error + DNSZone list"
  GetDNSRecords :: "string \<Rightarrow> error + DNSRecord list"

section \<open>Record translator\<close>

text \<open>
  Modelled from the spec: \<^verbatim>\<open>RecordConfig.SetTarget\<close> and \<^verbatim>\<open>RecordConfig.GetTargetField\<close> belong
  to the \<^verbatim>\<open>models\<close> package, which is not part of the provider's file. The spec speaks of
  "the canonical record's target": the setter stores its argument as the record's target and
  the getter reads it back.
\<close>

definition SetTarget :: "string \<Rightarrow> RecordConfig \<Rightarrow> RecordConfig" where
  "SetTarget target t = t\<lparr>rc_target := target\<rparr>"

definition GetTargetField :: "RecordConfig \<Rightarrow> string" where
  "GetTargetField rc = rc_target rc"

text \<open>The test \<^verbatim>\<open>r.Type == "CNAME" || r.Type == "MX" || r.Type == "NS" || r.Type == "SRV"\<close>.\<close>

definition relational :: "string \<Rightarrow> bool" where
  "relational ty = (ty = ''CNAME'' \<or> ty = ''MX'' \<or> ty = ''NS'' \<or> ty = ''SRV'')"

text \<open>
  The block of \<^verbatim>\<open>recordToNative\<close> that makes the target fully qualified: inside the test on
  the type, first the \<^verbatim>\<open>if\<close>/\<^verbatim>\<open>else if\<close> on \<^verbatim>\<open>"@"\<close> and \<^verbatim>\<open>"."\<close>, then the unconditional
  \<^verbatim>\<open>target = target + "."\<close>.
\<close>

definition fqdn_target :: "string \<Rightarrow> string \<Rightarrow> string \<Rightarrow> string" where
  "fqdn_target domain ty target =
     (if relational ty then
        (let target = (if target = ''@'' then domain
                       else if target = ''.'' then ''''
                       else target)
         in target @ ''.'')
      else target)"

definition recordToNative :: "ext \<Rightarrow> string \<Rightarrow> DNSRecord \<Rightarrow> error + RecordConfig" where
  "recordToNative E domain r =
     (if \<not> r_Managed r then Inl (Errorf (r_Hostname r @ '' is not managed by Netlify''))
      else
        let name = r_Hostname r;
            target = fqdn_target domain (r_Type r) (r_Value r);
            t = \<lparr> rc_Type = r_Type r,
                  rc_Name = '''',
                  rc_NameFQDN = '''',
                  rc_target = '''',
                  rc_TTL = ucast (r_TTL r),
                  rc_MxPreference = ucast (r_Priority r),
                  rc_SrvPriority = ucast (r_Priority r),
                  rc_SrvWeight = 0,
                  rc_SrvPort = 0,
                  rc_CaaTag = r_Tag r,
                  rc_CaaFlag = ucast (r_Flag r),
                  rc_TxtStrings = [],
                  rc_Original = Some r \<rparr>
        in case SetLabelFromFQDN E name domain of
             None \<Rightarrow> Inl Panic
           | Some (label, fqdn) \<Rightarrow>
               let t = t\<lparr>rc_Name := label, rc_NameFQDN := fqdn\<rparr>;
                   t = SetTarget target t;
                   t = (if r_Type r = ''TXT'' then SetTargetTXTString E target t else t)
               in Inr t)"

definition toReq :: "ext \<Rightarrow> DomainConfig \<Rightarrow> RecordConfig \<Rightarrow> DNSRecordCreate" where
  "toReq E dc rc =
     \<lparr> req_Type = rc_Type rc,
       req_Hostname = AddOrigin E (rc_Name rc) (dc_Name dc),
       req_Value = GetTargetField rc,
       req_TTL = 0,
       req_Priority = ucast (rc_SrvPriority rc),
       req_Weight = ucast (rc_SrvWeight rc),
       req_Port = ucast (rc_SrvPort rc),
       req_Flag = ucast (rc_CaaFlag rc),
       req_Tag = rc_CaaTag rc \<rparr>"

section \<open>Observed-state fetcher\<close>

text \<open>
  The inner loop of \<^verbatim>\<open>getRecords\<close>: \<^verbatim>\<open>records = append(records, r)\<close> for each record of the
  zone's payload.
\<close>

fun append_payload :: "DNSRecord list \<Rightarrow> DNSRecord list \<Rightarrow> DNSRecord list" where
  "append_payload records [] = records"
| "append_payload records (r # rs) = append_payload (records @ [r]) rs"

text \<open>
  The outer loop of \<^verbatim>\<open>getRecords\<close> over the zone list: a zone whose name equals the requested
  one has its records fetched and appended; a failing fetch returns the error at once; the
  loop goes on to the next zone in either case.
\<close>

fun getRecords_loop :: "api \<Rightarrow> string \<Rightarrow> DNSZone list \<Rightarrow> DNSRecord list \<Rightarrow> error + DNSRecord list" where
  "getRecords_loop a name [] records = Inr records"
| "getRecords_loop a name (zone # zones) records =
     (if zone_Name zone = name then
        (case GetDNSRecords a (zone_ID zone) of
           Inl err \<Rightarrow> Inl err
         | Inr payload \<Rightarrow> getRecords_loop a name zones (append_payload records payload))
      else getRecords_loop a name zones records)"

definition getRecords :: "api \<Rightarrow> string \<Rightarrow> error + DNSRecord list" where
  "getRecords a name =
     (case GetDNSZones a of
        Inl err \<Rightarrow> Inl err
      | Inr zoneList \<Rightarrow> getRecords_loop a name zoneList [])"

text \<open>The loop of \<^verbatim>\<open>GetZoneRecords\<close>: the first record that fails to translate ends the fetch.\<close>

fun GetZoneRecords_loop :: "ext \<Rightarrow> string \<Rightarrow> DNSRecord list \<Rightarrow> RecordConfig list \<Rightarrow> error + RecordConfig list" where
  "GetZoneRecords_loop E domain [] existingRecords = Inr existingRecords"
| "GetZoneRecords_loop E domain (r # records) existingRecords =
     (case recordToNative E domain r of
        Inl err \<Rightarrow> Inl err
      | Inr t \<Rightarrow> GetZoneRecords_loop E domain records (existingRecords @ [t]))"

definition GetZoneRecords :: "ext \<Rightarrow> api \<Rightarrow> string \<Rightarrow> error + RecordConfig list" where
  "GetZoneRecords E a domain =
     (case getRecords a domain of
        Inl err \<Rightarrow> Inl err
      | Inr records \<Rightarrow> GetZoneRecords_loop E domain records [])"

section \<open>Corrections\<close>

text \<open>
  A correction is a message and a deferred action. The action is a Go function literal: it
  does not hold its payload, it refers to the variable (\<^verbatim>\<open>id\<close>, here \<open>ident\<close>, or \<^verbatim>\<open>req\<close>) that was in scope
  where the literal was written, and reads that variable when it is run. Variables are cells
  of a store: \<open>cell list\<close>, a cell's address being its index. \<^verbatim>\<open>id := ...\<close> and \<^verbatim>\<open>req := ...\<close>
  stand inside the loop bodies, so each iteration declares a new variable: a new cell at the
  end of the store.

  The messages are kept as the call that builds them: the string itself (\<open>Str\<close>), or the
  format and the arguments given to \<^verbatim>\<open>fmt.Sprintf\<close>.
\<close>

datatype cell = IdCell string | ReqCell DNSRecordCreate

datatype closure = DeleteFn nat | CreateFn nat

datatype msg = Str string | Sprintf string "string list"

record Correction =
  Msg :: msg
  F :: closure

text \<open>The call a deferred action makes to the provider when it is run.\<close>

datatype api_call = DeleteDNSRecord string | CreateDNSRecord DNSRecordCreate

fun run :: "cell list \<Rightarrow> closure \<Rightarrow> api_call option" where
  "run store (DeleteFn a) =
     (if a < length store then
        (case store ! a of IdCell ident \<Rightarrow> Some (DeleteDNSRecord ident) | ReqCell _ \<Rightarrow> None)
      else None)"
| "run store (CreateFn a) =
     (if a < length store then
        (case store ! a of ReqCell req \<Rightarrow> Some (CreateDNSRecord req) | IdCell _ \<Rightarrow> None)
      else None)"

text \<open>
  \<^verbatim>\<open>m.Existing.Original.(*netlifyModels.DNSRecord).ID\<close>: a nil \<^verbatim>\<open>Existing\<close> or an \<^verbatim>\<open>Original\<close>
  that is no native record panics.
\<close>

definition existing_id :: "Correlation \<Rightarrow> string option" where
  "existing_id m =
     (case Existing m of
        None \<Rightarrow> None
      | Some rc \<Rightarrow> (case rc_Original rc of None \<Rightarrow> None | Some r \<Rightarrow> Some (r_ID r)))"

text \<open>The state of the three loops: the store of captured variables and the list built so far.\<close>

type_synonym build = "cell list \<times> Correction list"

text \<open>First loop, over \<^verbatim>\<open>delete\<close>.\<close>

fun delete_loop :: "ext \<Rightarrow> Correlation list \<Rightarrow> build \<Rightarrow> error + build" where
  "delete_loop E [] (store, corrections) = Inr (store, corrections)"
| "delete_loop E (m # ms) (store, corrections) =
     (case existing_id m of
        None \<Rightarrow> Inl Panic
      | Some ident \<Rightarrow>
          let a = length store;
              corr = \<lparr> Msg = Sprintf ''%s, Netlify DNSZoneID: %d'' [Correlation_String E m, ident],
                       F = DeleteFn a \<rparr>
          in delete_loop E ms (store @ [IdCell ident], corrections @ [corr]))"

text \<open>Second loop, over \<^verbatim>\<open>create\<close>. \<^verbatim>\<open>toReq\<close> dereferences \<^verbatim>\<open>m.Desired\<close>.\<close>

fun create_loop :: "ext \<Rightarrow> DomainConfig \<Rightarrow> Correlation list \<Rightarrow> build \<Rightarrow> error + build" where
  "create_loop E dc [] (store, corrections) = Inr (store, corrections)"
| "create_loop E dc (m # ms) (store, corrections) =
     (case Desired m of
        None \<Rightarrow> Inl Panic
      | Some rc \<Rightarrow>
          let a = length store;
              corr = \<lparr> Msg = Str (Correlation_String E m), F = CreateFn a \<rparr>
          in create_loop E dc ms (store @ [ReqCell (toReq E dc rc)], corrections @ [corr]))"

text \<open>Third loop, over \<^verbatim>\<open>modify\<close>: one \<^verbatim>\<open>append\<close> of two corrections per entry.\<close>

fun modify_loop :: "ext \<Rightarrow> DomainConfig \<Rightarrow> Correlation list \<Rightarrow> build \<Rightarrow> error + build" where
  "modify_loop E dc [] (store, corrections) = Inr (store, corrections)"
| "modify_loop E dc (m # ms) (store, corrections) =
     (case existing_id m of
        None \<Rightarrow> Inl Panic
      | Some ident \<Rightarrow>
          (case Desired m of
             None \<Rightarrow> Inl Panic
           | Some rc \<Rightarrow>
               let a = length store;
                   b = Suc (length store)
               in modify_loop E dc ms
                    (store @ [IdCell ident, ReqCell (toReq E dc rc)],
                     corrections @
                       [\<lparr> Msg = Str (Correlation_String E m), F = DeleteFn a \<rparr>,
                        \<lparr> Msg = Str (Correlation_String E m), F = CreateFn b \<rparr>])))"

text \<open>
  \<^verbatim>\<open>GetDomainCorrections\<close>. The result is the correction list together with the store its
  deferred actions refer to.
\<close>

definition GetDomainCorrections :: "ext \<Rightarrow> api \<Rightarrow> DomainConfig \<Rightarrow> error + (Correction list \<times> cell list)" where
  "GetDomainCorrections E a dc0 =
     (let dc = Punycode E dc0 in
      (case GetZoneRecords E a (dc_Name dc) of
         Inl err \<Rightarrow> Inl err
       | Inr existingRecords \<Rightarrow>
          (let existingRecords = PostProcessRecords E existingRecords;
               dc = dc\<lparr>dc_Records := SplitSingleLongTxt E (dc_Records dc)\<rparr>
           in (case IncrementalDiff E dc existingRecords of
                 Inl err \<Rightarrow> Inl err
               | Inr (unchanged, create, delete, modify) \<Rightarrow>
                   (case delete_loop E delete ([], []) of
                      Inl err \<Rightarrow> Inl err
                    | Inr b1 \<Rightarrow>
                        (case create_loop E dc create b1 of
                           Inl err \<Rightarrow> Inl err
                         | Inr b2 \<Rightarrow>
                             (case modify_loop E dc modify b2 of
                                Inl err \<Rightarrow> Inl err
                              | Inr (store, corrections) \<Rightarrow> Inr (corrections, store))))))))"

text \<open>The calls a correction list makes when its actions are run in order on the store.\<close>

definition calls :: "Correction list \<times> cell list \<Rightarrow> api_call option list" where
  "calls res = map (\<lambda>c. run (snd res) (F c)) (fst res)"

text \<open>
  The call that the correction for a diff entry is to make: the deletion of the observed
  record's identifier, the creation of the request translated from the desired record.
  \<open>None\<close> where the entry lacks the record, which is where the loops panic.
\<close>

definition delete_call :: "Correlation \<Rightarrow> api_call option" where
  "delete_call m = map_option DeleteDNSRecord (existing_id m)"

definition create_call :: "ext \<Rightarrow> DomainConfig \<Rightarrow> Correlation \<Rightarrow> api_call option" where
  "create_call E dc m = map_option (\<lambda>rc. CreateDNSRecord (toReq E dc rc)) (Desired m)"

text \<open>
  The domain configuration after the two in-place passes of \<^verbatim>\<open>GetDomainCorrections\<close>, as the
  diff and \<^verbatim>\<open>toReq\<close> read it.
\<close>

definition prepared :: "ext \<Rightarrow> DomainConfig \<Rightarrow> DomainConfig" where
  "prepared E dc0 =
     (let dc = Punycode E dc0 in dc\<lparr>dc_Records := SplitSingleLongTxt E (dc_Records dc)\<rparr>)"

section \<open>Ordering of a call sequence\<close>

fun is_delete :: "api_call option \<Rightarrow> bool" where
  "is_delete (Some (DeleteDNSRecord _)) = True"
| "is_delete _ = False"

fun is_create :: "api_call option \<Rightarrow> bool" where
  "is_create (Some (CreateDNSRecord _)) = True"
| "is_create _ = False"

text \<open>All deletes before all creates: no delete stands after a create.\<close>

fun deletes_before_creates :: "api_call option list \<Rightarrow> bool" where
  "deletes_before_creates [] = True"
| "deletes_before_creates (c # cs) =
     ((if is_create c then list_all (\<lambda>d. \<not> is_delete d) cs else True) \<and>
      deletes_before_creates cs)"

section \<open>Example environment\<close>

text \<open>
  Concrete collaborators for the examples. The label of a name below the origin is the name
  without the origin; the diff matches desired and observed records by a key and reports
  unchanged, create, delete and modify entries as \<^verbatim>\<open>IncrementalDiff\<close> does. With the key
  \<open>slot\<close> (label and type) a change of type is a delete and a create; with the key
  \<open>rc_Name\<close> it is one modify, the way the specification's scenario reports it.
\<close>

definition demo_label :: "string \<Rightarrow> string \<Rightarrow> (string \<times> string) option" where
  "demo_label fqdn origin =
     (if fqdn = origin then Some (''@'', fqdn)
      else Some (take (length fqdn - Suc (length origin)) fqdn, fqdn))"

definition slot :: "RecordConfig \<Rightarrow> string \<times> string" where
  "slot rc = (rc_Name rc, rc_Type rc)"

definition same_fields :: "RecordConfig \<Rightarrow> RecordConfig \<Rightarrow> bool" where
  "same_fields d e = (rc_Type d = rc_Type e \<and> rc_target d = rc_target e \<and> rc_TTL d = rc_TTL e)"

definition demo_diff :: "(RecordConfig \<Rightarrow> 'k) \<Rightarrow> DomainConfig \<Rightarrow> RecordConfig list \<Rightarrow>
    error + (Correlation list \<times> Correlation list \<times> Correlation list \<times> Correlation list)" where
  "demo_diff key dc existing =
     (let desired = dc_Records dc in
      Inr (concat (map (\<lambda>d. map (\<lambda>e. \<lparr>Existing = Some e, Desired = Some d\<rparr>)
                              (filter (\<lambda>e. key e = key d \<and> same_fields d e) existing)) desired),
           map (\<lambda>d. \<lparr>Existing = None, Desired = Some d\<rparr>)
               (filter (\<lambda>d. key d \<notin> set (map key existing)) desired),
           map (\<lambda>e. \<lparr>Existing = Some e, Desired = None\<rparr>)
               (filter (\<lambda>e. key e \<notin> set (map key desired)) existing),
           concat (map (\<lambda>d. map (\<lambda>e. \<lparr>Existing = Some e, Desired = Some d\<rparr>)
                              (filter (\<lambda>e. key e = key d \<and> \<not> same_fields d e) existing)) desired)))"

definition demo_ext :: "(DomainConfig \<Rightarrow> RecordConfig list \<Rightarrow>
    error + (Correlation list \<times> Correlation list \<times> Correlation list \<times> Correlation list)) \<Rightarrow> ext" where
  "demo_ext d =
     \<lparr> SetLabelFromFQDN = demo_label,
       SetTargetTXTString = (\<lambda>s t. t\<lparr>rc_target := s, rc_TxtStrings := [s]\<rparr>),
       AddOrigin = (\<lambda>s origin. if s = ''@'' then origin else s @ ''.'' @ origin),
       Punycode = (\<lambda>dc. dc),
       PostProcessRecords = (\<lambda>rs. rs),
       SplitSingleLongTxt = (\<lambda>rs. rs),
       IncrementalDiff = d,
       Correlation_String = (\<lambda>m. ''change'') \<rparr>"

text \<open>A managed native record, and the zone list the examples fetch from.\<close>

definition native :: "string \<Rightarrow> string \<Rightarrow> string \<Rightarrow> string \<Rightarrow> int64 \<Rightarrow> DNSRecord" where
  "native ident host ty val ttl =
     \<lparr> r_ID = ident, r_Hostname = host, r_Type = ty, r_Value = val, r_TTL = ttl,
       r_Priority = 0, r_Flag = 0, r_Tag = '''', r_Managed = True \<rparr>"

definition demo_api :: "DNSRecord list \<Rightarrow> api" where
  "demo_api rs =
     \<lparr> GetDNSZones = Inr [\<lparr>zone_ID = ''z0'', zone_Name = ''example.org''\<rparr>,
                          \<lparr>zone_ID = ''z1'', zone_Name = ''example.com''\<rparr>],
       GetDNSRecords = (\<lambda>zid. if zid = ''z1'' then Inr rs else Inr []) \<rparr>"

text \<open>
  A desired record of zone \<^verbatim>\<open>example.com\<close>, the canonical record that \<^verbatim>\<open>recordToNative\<close>
  gives for a native record of a type other than CNAME, MX, NS, SRV and TXT, and a creation
  request with the numeric fields at zero.
\<close>

definition desired :: "string \<Rightarrow> string \<Rightarrow> string \<Rightarrow> uint32 \<Rightarrow> RecordConfig" where
  "desired label ty val ttl =
     \<lparr> rc_Type = ty, rc_Name = label, rc_NameFQDN = label @ ''.example.com'', rc_target = val,
       rc_TTL = ttl, rc_MxPreference = 0, rc_SrvPriority = 0, rc_SrvWeight = 0, rc_SrvPort = 0,
       rc_CaaTag = '''', rc_CaaFlag = 0, rc_TxtStrings = [], rc_Original = None \<rparr>"

definition observed :: "string \<Rightarrow> DNSRecord \<Rightarrow> RecordConfig" where
  "observed label r =
     \<lparr> rc_Type = r_Type r, rc_Name = label, rc_NameFQDN = r_Hostname r, rc_target = r_Value r,
       rc_TTL = ucast (r_TTL r), rc_MxPreference = ucast (r_Priority r),
       rc_SrvPriority = ucast (r_Priority r), rc_SrvWeight = 0, rc_SrvPort = 0,
       rc_CaaTag = r_Tag r, rc_CaaFlag = ucast (r_Flag r), rc_TxtStrings = [],
       rc_Original = Some r \<rparr>"

definition request :: "string \<Rightarrow> string \<Rightarrow> string \<Rightarrow> DNSRecordCreate" where
  "request host ty val =
     \<lparr> req_Type = ty, req_Hostname = host, req_Value = val, req_TTL = 0, req_Priority = 0,
       req_Weight = 0, req_Port = 0, req_Flag = 0, req_Tag = '''' \<rparr>"

text \<open>
  A zone with three observed records against two desired ones: two records to delete, one to
  create, one to modify.
\<close>

definition rec1 :: DNSRecord where
  "rec1 = native ''rec1'' ''old1.example.com'' ''A'' ''5.6.7.8'' 3600"

definition rec2 :: DNSRecord where
  "rec2 = native ''rec2'' ''old2.example.com'' ''A'' ''5.6.7.9'' 3600"

definition rec3 :: DNSRecord where
  "rec3 = native ''rec3'' ''app.example.com'' ''A'' ''9.9.9.9'' 3600"

definition desired_mixed :: DomainConfig where
  "desired_mixed =
     \<lparr> dc_Name = ''example.com'',
       dc_Records = [desired ''app'' ''A'' ''1.1.1.1'' 3600, desired ''www'' ''A'' ''1.2.3.4'' 3600] \<rparr>"

text \<open>The specification's scenario: desired CNAME \<^verbatim>\<open>app\<close> against observed A \<^verbatim>\<open>app\<close>.\<close>

definition desired_cname :: DomainConfig where
  "desired_cname =
     \<lparr> dc_Name = ''example.com'',
       dc_Records = [desired ''app'' ''CNAME'' ''host.example.com.'' 3600] \<rparr>"

text \<open>
  A record of the zone's own infrastructure, which the provider flags as not managed, and a
  zone list in which the requested name occurs twice, next to a name that differs in case.
\<close>

definition infra :: DNSRecord where
  "infra = (native ''rec0'' ''example.com'' ''NS'' ''dns1.p04.nsone.net'' 3600)\<lparr>r_Managed := False\<rparr>"

definition twin_api :: api where
  "twin_api =
     \<lparr> GetDNSZones = Inr [\<lparr>zone_ID = ''z1'', zone_Name = ''example.com''\<rparr>,
                          \<lparr>zone_ID = ''z2'', zone_Name = ''Example.com''\<rparr>,
                          \<lparr>zone_ID = ''z3'', zone_Name = ''example.com''\<rparr>],
       GetDNSRecords = (\<lambda>zid. if zid = ''z1'' then Inr [rec1]
                              else if zid = ''z2'' then Inr [rec2]
                              else if zid = ''z3'' then Inr [rec3]
                              else Inl (External ''zone not found'')) \<rparr>"

section \<open>Properties of the fetcher and the translator\<close>

lemma append_payload_eq: "append_payload records rs = records @ rs"
  by (induction rs arbitrary: records) auto

lemma getRecords_loop_concat:
  assumes "\<forall>zone\<in>set zones. zone_Name zone = name \<longrightarrow> GetDNSRecords a (zone_ID zone) = Inr (payload zone)"
  shows "getRecords_loop a name zones records =
           Inr (records @ concat (map payload (filter (\<lambda>zone. zone_Name zone = name) zones)))"
  using assms
  by (induction zones arbitrary: records) (auto simp: append_payload_eq)

lemma relational_not_TXT: "relational ty \<Longrightarrow> ty \<noteq> ''TXT''"
  by (auto simp: relational_def)


lemma recordToNative_Inr_managed: "recordToNative E domain r = Inr t \<Longrightarrow> r_Managed r"
  by (auto simp: recordToNative_def split: if_splits)


text \<open>
  Claim C3, as amended. For a native record of type CNAME, MX, NS or SRV that
  \<^verbatim>\<open>recordToNative\<close> translates, the canonical target is the native value with \<^verbatim>\<open>"@"\<close>
  replaced by the zone name and a bare \<^verbatim>\<open>"."\<close> replaced by the empty string, followed in
  every case by a trailing dot. So \<^verbatim>\<open>"@"\<close> gives the zone name with a dot, and a bare
  \<^verbatim>\<open>"."\<close> gives \<^verbatim>\<open>"."\<close> again.
\<close>

theorem recordToNative_target:
  assumes "recordToNative E domain r = Inr t"
    and "r_Type r \<in> {''CNAME'', ''MX'', ''NS'', ''SRV''}"
  shows "rc_target t =
           (if r_Value r = ''@'' then domain else if r_Value r = ''.'' then '''' else r_Value r) @ ''.''"
proof -
  from assms(2) have rel: "relational (r_Type r)"
    by (auto simp: relational_def)
  then have "r_Type r \<noteq> ''TXT''"
    by (rule relational_not_TXT)
  with assms(1) rel show ?thesis
    by (auto simp: recordToNative_def fqdn_target_def SetTarget_def Let_def
             split: if_splits option.splits)
qed

text \<open>
  Claim C9. The creation request built by \<^verbatim>\<open>toReq\<close> has the record's \<^verbatim>\<open>SrvPriority\<close> as its
  \<^verbatim>\<open>Priority\<close>; the request does not depend on \<^verbatim>\<open>MxPreference\<close>; a record whose preference
  is stored in \<^verbatim>\<open>MxPreference\<close> only, with \<^verbatim>\<open>SrvPriority\<close> unset, gives priority zero.
\<close>

theorem toReq_Priority:
  "req_Priority (toReq E dc rc) = ucast (rc_SrvPriority rc) \<and>
   toReq E dc (rc\<lparr>rc_MxPreference := p\<rparr>) = toReq E dc rc \<and>
   req_Priority (toReq E dc (rc\<lparr>rc_MxPreference := p, rc_SrvPriority := 0\<rparr>)) = 0"
  by (simp add: toReq_def GetTargetField_def)



section \<open>Properties of the correction list\<close>

text \<open>A deferred action keeps its result when later variables are added to the store.\<close>

lemma run_append: "run store f = Some x \<Longrightarrow> run (store @ later) f = Some x"
  by (cases f) (auto simp: nth_append split: if_splits cell.splits)

lemma map_run_append:
  "map (\<lambda>c. run store (F c)) cs = map Some xs \<Longrightarrow>
   map (\<lambda>c. run (store @ later) (F c)) cs = map Some xs"
proof (induction cs arbitrary: xs)
  case Nil
  then show ?case by simp
next
  case (Cons c cs)
  then obtain y ys where xs: "xs = y # ys" by (cases xs) auto
  with Cons.prems have "run store (F c) = Some y" and "map (\<lambda>c. run store (F c)) cs = map Some ys"
    by simp_all
  with Cons.IH xs show ?case by (simp add: run_append)
qed

lemma delete_loop_calls:
  assumes "delete_loop E ms (store, cs) = Inr (store', cs')"
    and "map (\<lambda>c. run store (F c)) cs = map Some xs"
  shows "\<exists>ys. map delete_call ms = map Some ys \<and>
              map (\<lambda>c. run store' (F c)) cs' = map Some (xs @ ys)"
  using assms
proof (induction ms arbitrary: store cs xs)
  case Nil
  then show ?case by simp
next
  case (Cons m ms)
  from Cons.prems(1) obtain ident where ident: "existing_id m = Some ident"
    by (auto split: option.splits)
  let ?corr = "\<lparr> Msg = Sprintf ''%s, Netlify DNSZoneID: %d'' [Correlation_String E m, ident],
                  F = DeleteFn (length store) \<rparr>"
  from Cons.prems(1) ident
  have loop: "delete_loop E ms (store @ [IdCell ident], cs @ [?corr]) = Inr (store', cs')"
    by (simp add: Let_def)
  from Cons.prems(2)
  have "map (\<lambda>c. run (store @ [IdCell ident]) (F c)) (cs @ [?corr]) = map Some (xs @ [DeleteDNSRecord ident])"
    by (simp add: map_run_append)
  from Cons.IH [OF loop this] obtain ys where
    "map delete_call ms = map Some ys"
    "map (\<lambda>c. run store' (F c)) cs' = map Some ((xs @ [DeleteDNSRecord ident]) @ ys)"
    by blast
  moreover from ident have "delete_call m = Some (DeleteDNSRecord ident)"
    by (simp add: delete_call_def)
  ultimately show ?case
    by (intro exI [of _ "DeleteDNSRecord ident # ys"]) simp
qed

lemma create_loop_calls:
  assumes "create_loop E dc ms (store, cs) = Inr (store', cs')"
    and "map (\<lambda>c. run store (F c)) cs = map Some xs"
  shows "\<exists>ys. map (create_call E dc) ms = map Some ys \<and>
              map (\<lambda>c. run store' (F c)) cs' = map Some (xs @ ys)"
  using assms
proof (induction ms arbitrary: store cs xs)
  case Nil
  then show ?case by simp
next
  case (Cons m ms)
  from Cons.prems(1) obtain rc where rc: "Desired m = Some rc"
    by (auto split: option.splits)
  let ?corr = "\<lparr> Msg = Str (Correlation_String E m), F = CreateFn (length store) \<rparr>"
  let ?req = "toReq E dc rc"
  from Cons.prems(1) rc
  have loop: "create_loop E dc ms (store @ [ReqCell ?req], cs @ [?corr]) = Inr (store', cs')"
    by (simp add: Let_def)
  from Cons.prems(2)
  have "map (\<lambda>c. run (store @ [ReqCell ?req]) (F c)) (cs @ [?corr]) = map Some (xs @ [CreateDNSRecord ?req])"
    by (simp add: map_run_append)
  from Cons.IH [OF loop this] obtain ys where
    "map (create_call E dc) ms = map Some ys"
    "map (\<lambda>c. run store' (F c)) cs' = map Some ((xs @ [CreateDNSRecord ?req]) @ ys)"
    by blast
  moreover from rc have "create_call E dc m = Some (CreateDNSRecord ?req)"
    by (simp add: create_call_def)
  ultimately show ?case
    by (intro exI [of _ "CreateDNSRecord ?req # ys"]) simp
qed

lemma modify_loop_calls:
  assumes "modify_loop E dc ms (store, cs) = Inr (store', cs')"
    and "map (\<lambda>c. run store (F c)) cs = map Some xs"
  shows "\<exists>ys. concat (map (\<lambda>m. [delete_call m, create_call E dc m]) ms) = map Some ys \<and>
              map (\<lambda>c. run store' (F c)) cs' = map Some (xs @ ys)"
  using assms
proof (induction ms arbitrary: store cs xs)
  case Nil
  then show ?case by simp
next
  case (Cons m ms)
  from Cons.prems(1) obtain ident where ident: "existing_id m = Some ident"
    by (auto split: option.splits)
  from Cons.prems(1) ident obtain rc where rc: "Desired m = Some rc"
    by (auto split: option.splits)
  let ?d = "\<lparr> Msg = Str (Correlation_String E m), F = DeleteFn (length store) \<rparr>"
  let ?c = "\<lparr> Msg = Str (Correlation_String E m), F = CreateFn (Suc (length store)) \<rparr>"
  let ?req = "toReq E dc rc"
  from Cons.prems(1) ident rc
  have loop: "modify_loop E dc ms (store @ [IdCell ident, ReqCell ?req], cs @ [?d, ?c]) = Inr (store', cs')"
    by (simp add: Let_def)
  from Cons.prems(2)
  have "map (\<lambda>c. run (store @ [IdCell ident, ReqCell ?req]) (F c)) (cs @ [?d, ?c]) =
          map Some (xs @ [DeleteDNSRecord ident, CreateDNSRecord ?req])"
    by (simp add: map_run_append nth_append)
  from Cons.IH [OF loop this] obtain ys where
    "concat (map (\<lambda>m. [delete_call m, create_call E dc m]) ms) = map Some ys"
    "map (\<lambda>c. run store' (F c)) cs' = map Some ((xs @ [DeleteDNSRecord ident, CreateDNSRecord ?req]) @ ys)"
    by blast
  moreover from ident have "delete_call m = Some (DeleteDNSRecord ident)"
    by (simp add: delete_call_def)
  moreover from rc have "create_call E dc m = Some (CreateDNSRecord ?req)"
    by (simp add: create_call_def)
  ultimately show ?case
    by (intro exI [of _ "DeleteDNSRecord ident # CreateDNSRecord ?req # ys"]) simp
qed


lemma concat_pairs_nth:
  "k < length ms \<Longrightarrow>
     concat (map (\<lambda>m. [f m, g m]) ms) ! (2 * k) = f (ms ! k) \<and>
     concat (map (\<lambda>m. [f m, g m]) ms) ! Suc (2 * k) = g (ms ! k)"
proof (induction ms arbitrary: k)
  case Nil
  then show ?case by simp
next
  case (Cons m ms)
  show ?case
  proof (cases k)
    case 0
    then show ?thesis by simp
  next
    case (Suc j)
    with Cons.prems have "j < length ms" by simp
    from Cons.IH [OF this] Suc show ?thesis by simp
  qed
qed

lemma length_concat_pairs: "length (concat (map (\<lambda>m. [f m, g m]) ms)) = 2 * length ms"
  by (induction ms) auto

lemma GetDomainCorrections_calls:
  assumes zr: "GetZoneRecords E a (dc_Name (Punycode E dc0)) = Inr existing"
    and df: "IncrementalDiff E (prepared E dc0) (PostProcessRecords E existing) =
               Inr (unchanged, create, delete, modify)"
    and res: "GetDomainCorrections E a dc0 = Inr res"
  shows "\<exists>zs. calls res = map Some zs \<and>
              map Some zs =
                map delete_call delete @ map (create_call E (prepared E dc0)) create @
                concat (map (\<lambda>m. [delete_call m, create_call E (prepared E dc0) m]) modify)"
proof -
  let ?dc = "prepared E dc0"
  from res zr df obtain b1 b2 store corrections where
    l1: "delete_loop E delete ([], []) = Inr b1" and
    l2: "create_loop E ?dc create b1 = Inr b2" and
    l3: "modify_loop E ?dc modify b2 = Inr (store, corrections)" and
    r: "res = (corrections, store)"
    by (auto simp: GetDomainCorrections_def prepared_def Let_def split: sum.splits prod.splits)
  obtain s1 c1 where b1: "b1 = (s1, c1)" by (cases b1)
  obtain s2 c2 where b2: "b2 = (s2, c2)" by (cases b2)
  have start: "map (\<lambda>c. run [] (F c)) [] = map Some []" by simp
  from delete_loop_calls [OF l1 [unfolded b1] start] obtain ds where
    ds: "map delete_call delete = map Some ds" and
    c1: "map (\<lambda>c. run s1 (F c)) c1 = map Some ([] @ ds)" by blast
  from create_loop_calls [OF l2 [unfolded b1 b2] c1] obtain cs where
    cs: "map (create_call E ?dc) create = map Some cs" and
    c2: "map (\<lambda>c. run s2 (F c)) c2 = map Some (([] @ ds) @ cs)" by blast
  from modify_loop_calls [OF l3 [unfolded b2] c2] obtain ms where
    ms: "concat (map (\<lambda>m. [delete_call m, create_call E ?dc m]) modify) = map Some ms" and
    c3: "map (\<lambda>c. run store (F c)) corrections = map Some ((([] @ ds) @ cs) @ ms)" by blast
  from c3 r have "calls res = map Some (ds @ cs @ ms)"
    by (simp add: calls_def)
  moreover from ds cs ms have "map Some (ds @ cs @ ms) =
      map delete_call delete @ map (create_call E ?dc) create @
      concat (map (\<lambda>m. [delete_call m, create_call E ?dc m]) modify)"
    by simp
  ultimately show ?thesis by blast
qed


lemma delete_call_Some_is_delete: "delete_call m = Some z \<Longrightarrow> is_delete (delete_call m)"
  by (auto simp: delete_call_def)

lemma create_call_Some_is_create: "create_call E dc m = Some z \<Longrightarrow> is_create (create_call E dc m)"
  by (auto simp: create_call_def)

lemma delete_call_SomeD:
  "delete_call m = Some z \<Longrightarrow> \<exists>ident. existing_id m = Some ident \<and> z = DeleteDNSRecord ident"
  by (auto simp: delete_call_def)

lemma create_call_SomeD:
  "create_call E dc m = Some z \<Longrightarrow> \<exists>rc. Desired m = Some rc \<and> z = CreateDNSRecord (toReq E dc rc)"
  by (auto simp: create_call_def)

lemma nth_map_Some: "xs = map Some zs \<Longrightarrow> n < length xs \<Longrightarrow> \<exists>z. xs ! n = Some z"
  by auto

text \<open>
  The layout of the call sequence, by position: the delete entries first, the create entries
  next, then two positions for each modify entry.
\<close>

lemma layout_delete:
  assumes "cs = map f delete @ map g create @ concat (map (\<lambda>m. [f m, g m]) modify)"
    and "i < length delete"
  shows "cs ! i = f (delete ! i)"
  using assms by (simp add: nth_append)

lemma layout_create:
  assumes "cs = map f delete @ map g create @ concat (map (\<lambda>m. [f m, g m]) modify)"
    and "j < length create"
  shows "cs ! (length delete + j) = g (create ! j)"
  using assms by (simp add: nth_append)

lemma layout_modify:
  assumes "cs = map f delete @ map g create @ concat (map (\<lambda>m. [f m, g m]) modify)"
    and "k < length modify"
  shows "cs ! (length delete + length create + 2 * k) = f (modify ! k) \<and>
         cs ! Suc (length delete + length create + 2 * k) = g (modify ! k)"
proof -
  let ?p = "concat (map (\<lambda>m. [f m, g m]) modify)"
  have "cs ! (length delete + length create + 2 * k) = ?p ! (2 * k)"
    using assms(1) by (simp add: nth_append)
  moreover have "cs ! Suc (length delete + length create + 2 * k) = ?p ! Suc (2 * k)"
    using assms(1) by (simp add: nth_append)
  ultimately show ?thesis
    using concat_pairs_nth [OF assms(2), of f g] by simp
qed

lemma layout_length:
  assumes "cs = map f delete @ map g create @ concat (map (\<lambda>m. [f m, g m]) modify)"
  shows "length cs = length delete + length create + 2 * length modify"
  using assms by (simp add: length_concat_pairs)


text \<open>
  Claim C1, as amended. When \<^verbatim>\<open>GetDomainCorrections\<close> returns, the calls of its correction
  list are, in this order: the delete of every delete entry, the create of every create
  entry, and then for each modify entry its delete followed at once by its create. Every
  call is present (none of the actions fails to find its payload). Every delete of a delete
  entry thus precedes every create of a create entry, while the delete of a modify entry
  follows the creates of the create entries and of the earlier modify entries.
\<close>

theorem GetDomainCorrections_order:
  assumes zr: "GetZoneRecords E a (dc_Name (Punycode E dc0)) = Inr existing"
    and df: "IncrementalDiff E (prepared E dc0) (PostProcessRecords E existing) =
               Inr (unchanged, create, delete, modify)"
    and res: "GetDomainCorrections E a dc0 = Inr res"
  shows "calls res =
           map delete_call delete @ map (create_call E (prepared E dc0)) create @
           concat (map (\<lambda>m. [delete_call m, create_call E (prepared E dc0) m]) modify) \<and>
         None \<notin> set (calls res)"
proof -
  from GetDomainCorrections_calls [OF zr df res] obtain zs where
    some: "calls res = map Some zs" and
    lay: "map Some zs =
       map delete_call delete @ map (create_call E (prepared E dc0)) create @
       concat (map (\<lambda>m. [delete_call m, create_call E (prepared E dc0) m]) modify)"
    by blast
  from some have "None \<notin> set (calls res)" by auto
  with some lay show ?thesis by simp
qed

text \<open>
  Claim C2. For every modify entry, at once for all of them, the delete generated for the
  entry stands in the returned list strictly before the create generated for it: the two
  stand at adjacent positions, the delete first. A change of type which the diff reports as
  a delete entry and a create entry is ordered the same way: the delete of every delete entry
  stands before the create of every create entry.
\<close>

theorem modify_delete_before_create:
  assumes zr: "GetZoneRecords E a (dc_Name (Punycode E dc0)) = Inr existing"
    and df: "IncrementalDiff E (prepared E dc0) (PostProcessRecords E existing) =
               Inr (unchanged, create, delete, modify)"
    and res: "GetDomainCorrections E a dc0 = Inr res"
  shows "(\<forall>k<length modify.
            Suc (length delete + length create + 2 * k) < length (calls res) \<and>
            calls res ! (length delete + length create + 2 * k) = delete_call (modify ! k) \<and>
            is_delete (delete_call (modify ! k)) \<and>
            calls res ! Suc (length delete + length create + 2 * k) =
              create_call E (prepared E dc0) (modify ! k) \<and>
            is_create (create_call E (prepared E dc0) (modify ! k))) \<and>
         (\<forall>i<length delete. \<forall>j<length create.
            i < length delete + j \<and> length delete + j < length (calls res) \<and>
            calls res ! i = delete_call (delete ! i) \<and>
            is_delete (delete_call (delete ! i)) \<and>
            calls res ! (length delete + j) = create_call E (prepared E dc0) (create ! j) \<and>
            is_create (create_call E (prepared E dc0) (create ! j)))"
proof -
  let ?dc = "prepared E dc0"
  from GetDomainCorrections_calls [OF zr df res] obtain zs where
    some: "calls res = map Some zs" and
    "map Some zs =
       map delete_call delete @ map (create_call E ?dc) create @
       concat (map (\<lambda>m. [delete_call m, create_call E ?dc m]) modify)"
    by blast
  then have lay: "calls res =
       map delete_call delete @ map (create_call E ?dc) create @
       concat (map (\<lambda>m. [delete_call m, create_call E ?dc m]) modify)"
    by simp
  have len: "length (calls res) = length delete + length create + 2 * length modify"
    by (rule layout_length [OF lay])
  have m: "Suc (length delete + length create + 2 * k) < length (calls res) \<and>
           calls res ! (length delete + length create + 2 * k) = delete_call (modify ! k) \<and>
           is_delete (delete_call (modify ! k)) \<and>
           calls res ! Suc (length delete + length create + 2 * k) = create_call E ?dc (modify ! k) \<and>
           is_create (create_call E ?dc (modify ! k))"
    if k: "k < length modify" for k
  proof -
    from k len have b: "Suc (length delete + length create + 2 * k) < length (calls res)"
      by simp
    from layout_modify [OF lay k]
    have d: "calls res ! (length delete + length create + 2 * k) = delete_call (modify ! k)"
      and c: "calls res ! Suc (length delete + length create + 2 * k) = create_call E ?dc (modify ! k)"
      by simp_all
    from nth_map_Some [OF some, of "length delete + length create + 2 * k"] b d
    obtain z where "delete_call (modify ! k) = Some z" by auto
    then have "is_delete (delete_call (modify ! k))" by (rule delete_call_Some_is_delete)
    moreover from nth_map_Some [OF some b] c
    obtain z' where "create_call E ?dc (modify ! k) = Some z'" by auto
    then have "is_create (create_call E ?dc (modify ! k))" by (rule create_call_Some_is_create)
    ultimately show ?thesis using b d c by simp
  qed
  have dc: "i < length delete + j \<and> length delete + j < length (calls res) \<and>
            calls res ! i = delete_call (delete ! i) \<and>
            is_delete (delete_call (delete ! i)) \<and>
            calls res ! (length delete + j) = create_call E ?dc (create ! j) \<and>
            is_create (create_call E ?dc (create ! j))"
    if i: "i < length delete" and j: "j < length create" for i j
  proof -
    from i j len have b: "i < length (calls res)" "length delete + j < length (calls res)"
      by simp_all
    have d: "calls res ! i = delete_call (delete ! i)"
      by (rule layout_delete [OF lay i])
    have c: "calls res ! (length delete + j) = create_call E ?dc (create ! j)"
      by (rule layout_create [OF lay j])
    from nth_map_Some [OF some b(1)] d
    obtain z where "delete_call (delete ! i) = Some z" by auto
    then have "is_delete (delete_call (delete ! i))" by (rule delete_call_Some_is_delete)
    moreover from nth_map_Some [OF some b(2)] c
    obtain z' where "create_call E ?dc (create ! j) = Some z'" by auto
    then have "is_create (create_call E ?dc (create ! j))" by (rule create_call_Some_is_create)
    ultimately show ?thesis using i b d c by simp
  qed
  from m dc show ?thesis by blast
qed

text \<open>
  Claim C8. Run on the store that \<^verbatim>\<open>GetDomainCorrections\<close> leaves behind, the action of the
  \<open>i\<close>-th correction of the delete loop deletes the identifier of the \<open>i\<close>-th delete entry,
  the action of the \<open>j\<close>-th correction of the create loop creates the request of the
  \<open>j\<close>-th create entry, and the two actions of the \<open>k\<close>-th modify entry delete and create
  with that entry's identifier and request: no action sees the payload of a later iteration.
\<close>

theorem closures_capture_own_payload:
  assumes zr: "GetZoneRecords E a (dc_Name (Punycode E dc0)) = Inr existing"
    and df: "IncrementalDiff E (prepared E dc0) (PostProcessRecords E existing) =
               Inr (unchanged, create, delete, modify)"
    and res: "GetDomainCorrections E a dc0 = Inr (corrections, store)"
  shows "length corrections = length delete + length create + 2 * length modify \<and>
         (\<forall>i<length delete. \<exists>ident.
            existing_id (delete ! i) = Some ident \<and>
            run store (F (corrections ! i)) = Some (DeleteDNSRecord ident)) \<and>
         (\<forall>j<length create. \<exists>rc.
            Desired (create ! j) = Some rc \<and>
            run store (F (corrections ! (length delete + j))) =
              Some (CreateDNSRecord (toReq E (prepared E dc0) rc))) \<and>
         (\<forall>k<length modify. \<exists>ident rc.
            existing_id (modify ! k) = Some ident \<and> Desired (modify ! k) = Some rc \<and>
            run store (F (corrections ! (length delete + length create + 2 * k))) =
              Some (DeleteDNSRecord ident) \<and>
            run store (F (corrections ! Suc (length delete + length create + 2 * k))) =
              Some (CreateDNSRecord (toReq E (prepared E dc0) rc)))"
proof -
  let ?dc = "prepared E dc0"
  let ?cs = "calls (corrections, store)"
  from GetDomainCorrections_calls [OF zr df res] obtain zs where
    some: "?cs = map Some zs" and
    "map Some zs =
       map delete_call delete @ map (create_call E ?dc) create @
       concat (map (\<lambda>m. [delete_call m, create_call E ?dc m]) modify)"
    by blast
  then have lay: "?cs =
       map delete_call delete @ map (create_call E ?dc) create @
       concat (map (\<lambda>m. [delete_call m, create_call E ?dc m]) modify)"
    by simp
  have len: "length corrections = length delete + length create + 2 * length modify"
    using layout_length [OF lay] by (simp add: calls_def)
  have at: "?cs ! n = run store (F (corrections ! n))" if "n < length corrections" for n
    using that by (simp add: calls_def)
  have some_at: "\<exists>z. ?cs ! n = Some z" if "n < length corrections" for n
    using nth_map_Some [OF some, of n] that by (simp add: calls_def)
  have d: "\<exists>ident. existing_id (delete ! i) = Some ident \<and>
             run store (F (corrections ! i)) = Some (DeleteDNSRecord ident)"
    if i: "i < length delete" for i
  proof -
    from i len have b: "i < length corrections" by simp
    from some_at [OF b] layout_delete [OF lay i]
    obtain z where z: "delete_call (delete ! i) = Some z" by auto
    from delete_call_SomeD [OF z] layout_delete [OF lay i] z at [OF b]
    show ?thesis by auto
  qed
  have c: "\<exists>rc. Desired (create ! j) = Some rc \<and>
             run store (F (corrections ! (length delete + j))) =
               Some (CreateDNSRecord (toReq E ?dc rc))"
    if j: "j < length create" for j
  proof -
    from j len have b: "length delete + j < length corrections" by simp
    from some_at [OF b] layout_create [OF lay j]
    obtain z where z: "create_call E ?dc (create ! j) = Some z" by auto
    from create_call_SomeD [OF z] layout_create [OF lay j] z at [OF b]
    show ?thesis by auto
  qed
  have m: "\<exists>ident rc. existing_id (modify ! k) = Some ident \<and> Desired (modify ! k) = Some rc \<and>
             run store (F (corrections ! (length delete + length create + 2 * k))) =
               Some (DeleteDNSRecord ident) \<and>
             run store (F (corrections ! Suc (length delete + length create + 2 * k))) =
               Some (CreateDNSRecord (toReq E ?dc rc))"
    if k: "k < length modify" for k
  proof -
    let ?i = "length delete + length create + 2 * k"
    from k len have b: "?i < length corrections" "Suc ?i < length corrections" by simp_all
    from layout_modify [OF lay k]
    have ld: "?cs ! ?i = delete_call (modify ! k)" and lc: "?cs ! Suc ?i = create_call E ?dc (modify ! k)"
      by simp_all
    from some_at [OF b(1)] ld obtain z where z: "delete_call (modify ! k) = Some z" by auto
    from some_at [OF b(2)] lc obtain z' where z': "create_call E ?dc (modify ! k) = Some z'" by auto
    from delete_call_SomeD [OF z] create_call_SomeD [OF z'] ld lc z z' at [OF b(1)] at [OF b(2)]
    show ?thesis by auto
  qed
  from len d c m show ?thesis by blast
qed

text \<open>
  Claim C5. When the zone's records were fetched and \<^verbatim>\<open>IncrementalDiff\<close> returns an error,
  \<^verbatim>\<open>GetDomainCorrections\<close> returns that error, and with it no correction list.
\<close>

theorem diff_error_aborts:
  assumes "GetZoneRecords E a (dc_Name (Punycode E dc0)) = Inr existing"
    and "IncrementalDiff E (prepared E dc0) (PostProcessRecords E existing) = Inl err"
  shows "GetDomainCorrections E a dc0 = Inl err"
  using assms by (simp add: GetDomainCorrections_def prepared_def Let_def)


section \<open>The examples, evaluated\<close>

lemmas demo_defs =
  demo_ext_def demo_api_def demo_diff_def demo_label_def slot_def same_fields_def
  native_def desired_def observed_def request_def rec1_def rec2_def rec3_def
  desired_mixed_def desired_cname_def infra_def twin_api_def

lemmas code_defs =
  GetDomainCorrections_def GetZoneRecords_def getRecords_def recordToNative_def
  fqdn_target_def relational_def SetTarget_def GetTargetField_def toReq_def existing_id_def
  prepared_def calls_def delete_call_def create_call_def Let_def

lemma mixed_zone:
  "GetZoneRecords (demo_ext (demo_diff slot)) (demo_api [rec1, rec2, rec3])
     (dc_Name (Punycode (demo_ext (demo_diff slot)) desired_mixed)) =
   Inr [observed ''old1'' rec1, observed ''old2'' rec2, observed ''app'' rec3]"
  by (simp add: demo_defs code_defs)

lemma mixed_diff:
  "IncrementalDiff (demo_ext (demo_diff slot)) (prepared (demo_ext (demo_diff slot)) desired_mixed)
     (PostProcessRecords (demo_ext (demo_diff slot))
        [observed ''old1'' rec1, observed ''old2'' rec2, observed ''app'' rec3]) =
   Inr ([],
        [\<lparr>Existing = None, Desired = Some (desired ''www'' ''A'' ''1.2.3.4'' 3600)\<rparr>],
        [\<lparr>Existing = Some (observed ''old1'' rec1), Desired = None\<rparr>,
         \<lparr>Existing = Some (observed ''old2'' rec2), Desired = None\<rparr>],
        [\<lparr>Existing = Some (observed ''app'' rec3),
          Desired = Some (desired ''app'' ''A'' ''1.1.1.1'' 3600)\<rparr>])"
  by (simp add: demo_defs code_defs)

lemma mixed_result:
  "GetDomainCorrections (demo_ext (demo_diff slot)) (demo_api [rec1, rec2, rec3]) desired_mixed =
   Inr ([\<lparr>Msg = Sprintf ''%s, Netlify DNSZoneID: %d'' [''change'', ''rec1''], F = DeleteFn 0\<rparr>,
         \<lparr>Msg = Sprintf ''%s, Netlify DNSZoneID: %d'' [''change'', ''rec2''], F = DeleteFn 1\<rparr>,
         \<lparr>Msg = Str ''change'', F = CreateFn 2\<rparr>,
         \<lparr>Msg = Str ''change'', F = DeleteFn 3\<rparr>,
         \<lparr>Msg = Str ''change'', F = CreateFn 4\<rparr>],
        [IdCell ''rec1'', IdCell ''rec2'', ReqCell (request ''www.example.com'' ''A'' ''1.2.3.4''),
         IdCell ''rec3'', ReqCell (request ''app.example.com'' ''A'' ''1.1.1.1'')])"
  by (simp add: demo_defs code_defs)


text \<open>The theorem of claim C1 on the zone with two deletes, one create and one modify.\<close>

theorem GetDomainCorrections_order_witness:
  "map_sum (\<lambda>e. e) calls
     (GetDomainCorrections (demo_ext (demo_diff slot)) (demo_api [rec1, rec2, rec3]) desired_mixed) =
   Inr [Some (DeleteDNSRecord ''rec1''), Some (DeleteDNSRecord ''rec2''),
        Some (CreateDNSRecord (request ''www.example.com'' ''A'' ''1.2.3.4'')),
        Some (DeleteDNSRecord ''rec3''),
        Some (CreateDNSRecord (request ''app.example.com'' ''A'' ''1.1.1.1''))]"
  using GetDomainCorrections_order [OF mixed_zone mixed_diff mixed_result]
  by (simp add: mixed_result demo_defs code_defs)

text \<open>
  Claim C1 as stated fails on that zone: the create of \<^verbatim>\<open>www\<close> stands before the delete
  of the modified record \<^verbatim>\<open>rec3\<close>.
\<close>

theorem deletes_before_creates_counterexample:
  "map_sum (\<lambda>e. e) calls
     (GetDomainCorrections (demo_ext (demo_diff slot)) (demo_api [rec1, rec2, rec3]) desired_mixed) =
   Inr [Some (DeleteDNSRecord ''rec1''), Some (DeleteDNSRecord ''rec2''),
        Some (CreateDNSRecord (request ''www.example.com'' ''A'' ''1.2.3.4'')),
        Some (DeleteDNSRecord ''rec3''),
        Some (CreateDNSRecord (request ''app.example.com'' ''A'' ''1.1.1.1''))] \<and>
   \<not> deletes_before_creates
       [Some (DeleteDNSRecord ''rec1''), Some (DeleteDNSRecord ''rec2''),
        Some (CreateDNSRecord (request ''www.example.com'' ''A'' ''1.2.3.4'')),
        Some (DeleteDNSRecord ''rec3''),
        Some (CreateDNSRecord (request ''app.example.com'' ''A'' ''1.1.1.1''))]"
  by (simp add: mixed_result calls_def)

text \<open>The theorem of claim C8 on the same zone.\<close>

theorem closures_capture_own_payload_witness:
  "(case GetDomainCorrections (demo_ext (demo_diff slot)) (demo_api [rec1, rec2, rec3]) desired_mixed of
      Inl err \<Rightarrow> False
    | Inr (corrections, store) \<Rightarrow>
        length corrections = 5 \<and>
        run store (F (corrections ! 0)) = Some (DeleteDNSRecord ''rec1'') \<and>
        run store (F (corrections ! 1)) = Some (DeleteDNSRecord ''rec2'') \<and>
        run store (F (corrections ! 2)) =
          Some (CreateDNSRecord (request ''www.example.com'' ''A'' ''1.2.3.4'')) \<and>
        run store (F (corrections ! 3)) = Some (DeleteDNSRecord ''rec3'') \<and>
        run store (F (corrections ! 4)) =
          Some (CreateDNSRecord (request ''app.example.com'' ''A'' ''1.1.1.1'')))"
  using closures_capture_own_payload [OF mixed_zone mixed_diff mixed_result]
  by (simp add: mixed_result)

lemma cname_zone:
  "GetZoneRecords (demo_ext (demo_diff rc_Name)) (demo_api [rec3])
     (dc_Name (Punycode (demo_ext (demo_diff rc_Name)) desired_cname)) =
   Inr [observed ''app'' rec3]"
  by (simp add: demo_defs code_defs)

lemma cname_diff:
  "IncrementalDiff (demo_ext (demo_diff rc_Name)) (prepared (demo_ext (demo_diff rc_Name)) desired_cname)
     (PostProcessRecords (demo_ext (demo_diff rc_Name)) [observed ''app'' rec3]) =
   Inr ([], [], [],
        [\<lparr>Existing = Some (observed ''app'' rec3),
          Desired = Some (desired ''app'' ''CNAME'' ''host.example.com.'' 3600)\<rparr>])"
  by (simp add: demo_defs code_defs)

lemma cname_result:
  "GetDomainCorrections (demo_ext (demo_diff rc_Name)) (demo_api [rec3]) desired_cname =
   Inr ([\<lparr>Msg = Str ''change'', F = DeleteFn 0\<rparr>, \<lparr>Msg = Str ''change'', F = CreateFn 1\<rparr>],
        [IdCell ''rec3'', ReqCell (request ''app.example.com'' ''CNAME'' ''host.example.com.'')])"
  by (simp add: demo_defs code_defs)

lemma cname_slot_zone:
  "GetZoneRecords (demo_ext (demo_diff slot)) (demo_api [rec3])
     (dc_Name (Punycode (demo_ext (demo_diff slot)) desired_cname)) =
   Inr [observed ''app'' rec3]"
  by (simp add: demo_defs code_defs)

lemma cname_slot_diff:
  "IncrementalDiff (demo_ext (demo_diff slot)) (prepared (demo_ext (demo_diff slot)) desired_cname)
     (PostProcessRecords (demo_ext (demo_diff slot)) [observed ''app'' rec3]) =
   Inr ([],
        [\<lparr>Existing = None, Desired = Some (desired ''app'' ''CNAME'' ''host.example.com.'' 3600)\<rparr>],
        [\<lparr>Existing = Some (observed ''app'' rec3), Desired = None\<rparr>],
        [])"
  by (simp add: demo_defs code_defs)

lemma cname_slot_result:
  "GetDomainCorrections (demo_ext (demo_diff slot)) (demo_api [rec3]) desired_cname =
   Inr ([\<lparr>Msg = Sprintf ''%s, Netlify DNSZoneID: %d'' [''change'', ''rec3''], F = DeleteFn 0\<rparr>,
         \<lparr>Msg = Str ''change'', F = CreateFn 1\<rparr>],
        [IdCell ''rec3'', ReqCell (request ''app.example.com'' ''CNAME'' ''host.example.com.'')])"
  by (simp add: demo_defs code_defs)

text \<open>
  The theorem of claim C2 on the specification's scenario, desired CNAME \<^verbatim>\<open>app\<close> against
  observed A \<^verbatim>\<open>app\<close>: reported as one modify entry, and reported as a delete entry and a
  create entry. Either way the delete of the A record precedes the create of the CNAME record.
\<close>

theorem modify_delete_before_create_witness:
  "map_sum (\<lambda>e. e) calls
     (GetDomainCorrections (demo_ext (demo_diff rc_Name)) (demo_api [rec3]) desired_cname) =
   Inr [Some (DeleteDNSRecord ''rec3''),
        Some (CreateDNSRecord (request ''app.example.com'' ''CNAME'' ''host.example.com.''))] \<and>
   map_sum (\<lambda>e. e) calls
     (GetDomainCorrections (demo_ext (demo_diff slot)) (demo_api [rec3]) desired_cname) =
   Inr [Some (DeleteDNSRecord ''rec3''),
        Some (CreateDNSRecord (request ''app.example.com'' ''CNAME'' ''host.example.com.''))]"
proof -
  let ?res = "([\<lparr>Msg = Str ''change'', F = DeleteFn 0\<rparr>, \<lparr>Msg = Str ''change'', F = CreateFn 1\<rparr>],
        [IdCell ''rec3'', ReqCell (request ''app.example.com'' ''CNAME'' ''host.example.com.'')])"
  let ?res' = "([\<lparr>Msg = Sprintf ''%s, Netlify DNSZoneID: %d'' [''change'', ''rec3''], F = DeleteFn 0\<rparr>,
         \<lparr>Msg = Str ''change'', F = CreateFn 1\<rparr>],
        [IdCell ''rec3'', ReqCell (request ''app.example.com'' ''CNAME'' ''host.example.com.'')])"
  from modify_delete_before_create [OF cname_zone cname_diff cname_result]
  have "calls ?res ! 0 = Some (DeleteDNSRecord ''rec3'') \<and>
        calls ?res ! 1 = Some (CreateDNSRecord (request ''app.example.com'' ''CNAME'' ''host.example.com.''))"
    by (simp add: demo_defs code_defs)
  moreover
  from modify_delete_before_create [OF cname_slot_zone cname_slot_diff cname_slot_result]
  have "calls ?res' ! 0 = Some (DeleteDNSRecord ''rec3'') \<and>
        calls ?res' ! 1 = Some (CreateDNSRecord (request ''app.example.com'' ''CNAME'' ''host.example.com.''))"
    by (simp add: demo_defs code_defs)
  ultimately show ?thesis
    by (simp add: cname_result cname_slot_result calls_def)
qed

lemma failing_diff_zone:
  "GetZoneRecords (demo_ext (\<lambda>dc existing. Inl (External ''duplicate record''))) (demo_api [rec3])
     (dc_Name (Punycode (demo_ext (\<lambda>dc existing. Inl (External ''duplicate record''))) desired_mixed)) =
   Inr [observed ''app'' rec3]"
  by (simp add: demo_defs code_defs)

text \<open>The theorem of claim C5 with a diff that reports an error.\<close>

theorem diff_error_aborts_witness:
  "GetDomainCorrections (demo_ext (\<lambda>dc existing. Inl (External ''duplicate record'')))
     (demo_api [rec3]) desired_mixed = Inl (External ''duplicate record'')"
proof -
  have "IncrementalDiff (demo_ext (\<lambda>dc existing. Inl (External ''duplicate record'')))
          (prepared (demo_ext (\<lambda>dc existing. Inl (External ''duplicate record''))) desired_mixed)
          (PostProcessRecords (demo_ext (\<lambda>dc existing. Inl (External ''duplicate record'')))
             [observed ''app'' rec3]) = Inl (External ''duplicate record'')"
    by (simp add: demo_ext_def)
  from diff_error_aborts [OF failing_diff_zone this] show ?thesis .
qed

text \<open>
  The theorem of claim C3 on the specification's example: for zone \<^verbatim>\<open>example.com\<close> a native
  CNAME target \<^verbatim>\<open>"@"\<close> gives the canonical target \<^verbatim>\<open>"example.com."\<close>.
\<close>

theorem recordToNative_target_witness:
  "map_sum (\<lambda>e. e) rc_target
     (recordToNative (demo_ext (demo_diff slot)) ''example.com''
        (native ''rec4'' ''www.example.com'' ''CNAME'' ''@'' 3600)) = Inr ''example.com.''"
proof -
  let ?r = "native ''rec4'' ''www.example.com'' ''CNAME'' ''@'' 3600"
  have t: "recordToNative (demo_ext (demo_diff slot)) ''example.com'' ?r =
             Inr ((observed ''www'' ?r)\<lparr>rc_target := ''example.com.''\<rparr>)"
    by (simp add: demo_defs code_defs)
  have ty: "r_Type ?r \<in> {''CNAME'', ''MX'', ''NS'', ''SRV''}"
    by (simp add: native_def)
  from recordToNative_target [OF t ty]
  have "rc_target ((observed ''www'' ?r)\<lparr>rc_target := ''example.com.''\<rparr>) = ''example.com.''"
    by (simp add: native_def)
  with t show ?thesis
    by simp
qed

text \<open>
  Claim C3 as stated fails on a bare \<^verbatim>\<open>"."\<close>: the canonical target is \<^verbatim>\<open>"."\<close>, not the empty
  string.
\<close>

theorem bare_dot_target_counterexample:
  "map_sum (\<lambda>e. e) rc_target
     (recordToNative (demo_ext (demo_diff slot)) ''example.com''
        (native ''rec5'' ''mail.example.com'' ''MX'' ''.'' 3600)) = Inr ''.'' \<and>
   map_sum (\<lambda>e. e) rc_target
     (recordToNative (demo_ext (demo_diff slot)) ''example.com''
        (native ''rec5'' ''mail.example.com'' ''MX'' ''.'' 3600)) \<noteq> Inr ''''"
  by (simp add: demo_defs code_defs)




text \<open>
  Claim C7. When the zone list holds no zone of the requested name, \<^verbatim>\<open>getRecords\<close> and
  \<^verbatim>\<open>GetZoneRecords\<close> return the empty record set and no error; the same holds when every
  zone of that name has no records.
\<close>

theorem missing_or_empty_zone_is_empty:
  assumes "GetDNSZones a = Inr zoneList"
  shows "((\<forall>zone\<in>set zoneList. zone_Name zone \<noteq> name) \<longrightarrow>
            getRecords a name = Inr [] \<and> GetZoneRecords E a name = Inr []) \<and>
         ((\<forall>zone\<in>set zoneList. zone_Name zone = name \<longrightarrow> GetDNSRecords a (zone_ID zone) = Inr []) \<longrightarrow>
            getRecords a name = Inr [] \<and> GetZoneRecords E a name = Inr [])"
proof -
  have empty: "getRecords a name = Inr [] \<and> GetZoneRecords E a name = Inr []"
    if "\<forall>zone\<in>set zoneList. zone_Name zone = name \<longrightarrow> GetDNSRecords a (zone_ID zone) = Inr []"
  proof -
    from getRecords_loop_concat [of zoneList name a "\<lambda>zone. []" "[]"] that
    have "getRecords_loop a name zoneList [] = Inr []"
      by simp
    with assms show ?thesis
      by (simp add: getRecords_def GetZoneRecords_def)
  qed
  then show ?thesis by blast
qed

text \<open>
  The theorem of claim C7 on a zone list without the requested name, and on one where the
  zone of that name has no records.
\<close>

theorem missing_or_empty_zone_is_empty_witness:
  "GetDNSZones (demo_api [rec1]) =
     Inr [\<lparr>zone_ID = ''z0'', zone_Name = ''example.org''\<rparr>,
          \<lparr>zone_ID = ''z1'', zone_Name = ''example.com''\<rparr>] \<and>
   getRecords (demo_api [rec1]) ''example.net'' = Inr [] \<and>
   GetZoneRecords (demo_ext (demo_diff slot)) (demo_api [rec1]) ''example.net'' = Inr [] \<and>
   GetDNSRecords (demo_api []) ''z1'' = Inr [] \<and>
   getRecords (demo_api []) ''example.com'' = Inr [] \<and>
   GetZoneRecords (demo_ext (demo_diff slot)) (demo_api []) ''example.com'' = Inr []"
proof -
  let ?zs = "[\<lparr>zone_ID = ''z0'', zone_Name = ''example.org''\<rparr>,
              \<lparr>zone_ID = ''z1'', zone_Name = ''example.com''\<rparr>]"
  have z1: "GetDNSZones (demo_api [rec1]) = Inr ?zs" and z2: "GetDNSZones (demo_api []) = Inr ?zs"
    by (simp_all add: demo_api_def)
  have no: "\<forall>zone\<in>set ?zs. zone_Name zone \<noteq> ''example.net''"
    by simp
  have none: "\<forall>zone\<in>set ?zs. zone_Name zone = ''example.com'' \<longrightarrow>
                GetDNSRecords (demo_api []) (zone_ID zone) = Inr []"
    by (simp add: demo_api_def)
  from missing_or_empty_zone_is_empty [OF z1, of "''example.net''" "demo_ext (demo_diff slot)"] no
  have a: "getRecords (demo_api [rec1]) ''example.net'' = Inr [] \<and>
           GetZoneRecords (demo_ext (demo_diff slot)) (demo_api [rec1]) ''example.net'' = Inr []"
    by blast
  from missing_or_empty_zone_is_empty [OF z2, of "''example.com''" "demo_ext (demo_diff slot)"] none
  have b: "getRecords (demo_api []) ''example.com'' = Inr [] \<and>
           GetZoneRecords (demo_ext (demo_diff slot)) (demo_api []) ''example.com'' = Inr []"
    by blast
  from z1 a b show ?thesis
    by (simp add: demo_api_def)
qed

text \<open>
  Claim C10. When the record lists of all zones whose name equals the requested one are
  fetched without error, \<^verbatim>\<open>getRecords\<close> returns their concatenation in the order of the zone
  list: every zone of that name contributes, not only the first. Names are compared as
  strings, so a name that differs in case does not match.
\<close>

theorem getRecords_concatenates_matching_zones:
  assumes "GetDNSZones a = Inr zoneList"
    and "\<forall>zone\<in>set zoneList. zone_Name zone = name \<longrightarrow> GetDNSRecords a (zone_ID zone) = Inr (payload zone)"
  shows "getRecords a name =
           Inr (concat (map payload (filter (\<lambda>zone. zone_Name zone = name) zoneList)))"
  using assms getRecords_loop_concat [of zoneList name a payload "[]"]
  by (simp add: getRecords_def)

text \<open>
  The theorem of claim C10 on a zone list with two zones named \<^verbatim>\<open>example.com\<close> around one
  named \<^verbatim>\<open>Example.com\<close>.
\<close>

theorem getRecords_concatenates_matching_zones_witness:
  "getRecords twin_api ''example.com'' = Inr [rec1, rec3]"
proof -
  let ?zs = "[\<lparr>zone_ID = ''z1'', zone_Name = ''example.com''\<rparr>,
              \<lparr>zone_ID = ''z2'', zone_Name = ''Example.com''\<rparr>,
              \<lparr>zone_ID = ''z3'', zone_Name = ''example.com''\<rparr>]"
  let ?payload = "\<lambda>zone. if zone_ID zone = ''z1'' then [rec1] else [rec3]"
  have z: "GetDNSZones twin_api = Inr ?zs"
    by (simp add: twin_api_def)
  have p: "\<forall>zone\<in>set ?zs. zone_Name zone = ''example.com'' \<longrightarrow>
             GetDNSRecords twin_api (zone_ID zone) = Inr (?payload zone)"
    by (simp add: twin_api_def)
  from getRecords_concatenates_matching_zones [OF z p] show ?thesis
    by simp
qed

text \<open>
  Claim C4 fails on the code. Two native A records that differ in their TTL only are
  translated to canonical records with the TTLs 300 and 600, and \<^verbatim>\<open>toReq\<close> builds the same
  creation request for both, with the TTL field at zero: the request does not carry the TTL,
  so no answer of the provider to it can give back the TTL the record had.
\<close>

theorem toReq_drops_TTL:
  "map_sum (\<lambda>e. e) rc_TTL
     (recordToNative (demo_ext (demo_diff slot)) ''example.com''
        (native ''rec9'' ''www.example.com'' ''A'' ''1.2.3.4'' 300)) = Inr 300 \<and>
   map_sum (\<lambda>e. e) rc_TTL
     (recordToNative (demo_ext (demo_diff slot)) ''example.com''
        (native ''rec9'' ''www.example.com'' ''A'' ''1.2.3.4'' 600)) = Inr 600 \<and>
   map_sum (\<lambda>e. e) (\<lambda>t. toReq (demo_ext (demo_diff slot)) desired_mixed t)
     (recordToNative (demo_ext (demo_diff slot)) ''example.com''
        (native ''rec9'' ''www.example.com'' ''A'' ''1.2.3.4'' 300)) =
     Inr (request ''www.example.com'' ''A'' ''1.2.3.4'') \<and>
   map_sum (\<lambda>e. e) (\<lambda>t. toReq (demo_ext (demo_diff slot)) desired_mixed t)
     (recordToNative (demo_ext (demo_diff slot)) ''example.com''
        (native ''rec9'' ''www.example.com'' ''A'' ''1.2.3.4'' 600)) =
     Inr (request ''www.example.com'' ''A'' ''1.2.3.4'') \<and>
   req_TTL (request ''www.example.com'' ''A'' ''1.2.3.4'') = 0"
  by (simp add: demo_defs code_defs)

end
